theory Spec2Isabelle
  imports Main
begin

section \<open>Bytes, errors and the Python primitives the plugin relies on\<close>

text \<open>
  A Python \<open>bytes\<close>/\<open>bytearray\<close> value is a list of 8-bit characters. The exceptions the
  plugin raises are values of \<open>error\<close>; a fallible function returns \<open>error + 'a\<close>
  with \<open>Inl\<close> for the raised exception.
\<close>

type_synonym bytes = "char list"

datatype error =
    IndexError
  | OverflowError
  | InvalidLiteral bytes
  | ReachedEOFHeader
  | HeaderTokenTooLong bytes
  | NotAPPMFile
  | TooManyColors int
  | InvalidToken bytes
  | DataTokenTooLong bytes
  | ChannelValueTooLarge int
  | CannotWriteMode string
  | UnboundLocalError

definition b_whitespace :: bytes where
  "b_whitespace = [CHR 0x20, CHR 0x09, CHR 0x0A, CHR 0x0B, CHR 0x0C, CHR 0x0D]"

definition MODES :: "bytes \<Rightarrow> string option" where
  "MODES m =
     (if m = ''P1'' then Some ''1''
      else if m = ''P2'' then Some ''L''
      else if m = ''P3'' then Some ''RGB''
      else if m = ''P4'' then Some ''1''
      else if m = ''P5'' then Some ''L''
      else if m = ''P6'' then Some ''RGB''
      else if m = ''P0CMYK'' then Some ''CMYK''
      else if m = ''PyP'' then Some ''P''
      else if m = ''PyRGBA'' then Some ''RGBA''
      else if m = ''PyCMYK'' then Some ''CMYK''
      else None)"

text \<open>
  \<open>_accept(prefix)\<close>: \<open>prefix[0:1] == b"P" and prefix[1] in b"0123456y"\<close>. The slice
  never raises; the index \<open>prefix[1]\<close> raises IndexError when the prefix has fewer than
  two bytes, and \<open>and\<close> evaluates it only when the slice comparison holds.
\<close>

definition accept :: "bytes \<Rightarrow> error + bool" where
  "accept prefix =
     (if take 1 prefix = ''P''
      then (if 1 < length prefix then Inr (prefix ! 1 \<in> set ''0123456y'') else Inl IndexError)
      else Inr False)"

subsection \<open>Decimal text of integers\<close>

definition is_digit :: "char \<Rightarrow> bool" where
  "is_digit c = (48 \<le> (of_char c :: nat) \<and> (of_char c :: nat) \<le> 57)"

definition digit_val :: "char \<Rightarrow> nat" where
  "digit_val c = of_char c - 48"

text \<open>
  \<open>int(token)\<close> on a bytes value in base 10: an optional sign, then decimal digits with
  single underscores allowed between digits; anything else raises ValueError. (Python
  also strips surrounding whitespace; the tokens passed here never contain any.)
\<close>

fun parse_digits :: "nat \<Rightarrow> bytes \<Rightarrow> nat option" where
  "parse_digits acc [] = Some acc"
| "parse_digits acc (c # cs) =
     (if is_digit c then parse_digits (acc * 10 + digit_val c) cs
      else if c = CHR ''_'' then
        (case cs of
           [] \<Rightarrow> None
         | d # _ \<Rightarrow> if is_digit d then parse_digits acc cs else None)
      else None)"

definition py_int :: "bytes \<Rightarrow> error + int" where
  "py_int s =
     (let neg = (case s of [] \<Rightarrow> False | c # _ \<Rightarrow> c = CHR ''-'');
          body = (case s of [] \<Rightarrow> [] | c # cs \<Rightarrow> if c = CHR ''-'' \<or> c = CHR ''+'' then cs else s)
      in case body of
           [] \<Rightarrow> Inl (InvalidLiteral s)
         | d # _ \<Rightarrow>
             if is_digit d then
               (case parse_digits 0 body of
                  None \<Rightarrow> Inl (InvalidLiteral s)
                | Some n \<Rightarrow> Inr (if neg then - int n else int n))
             else Inl (InvalidLiteral s))"

text \<open>\<open>"%d" % n\<close>: the decimal text of an integer.\<close>

definition digit_char :: "nat \<Rightarrow> char" where
  "digit_char d = char_of (48 + d)"

function str_nat :: "nat \<Rightarrow> string" where
  "str_nat n = (if n < 10 then [digit_char n] else str_nat (n div 10) @ [digit_char (n mod 10)])"
  by pat_completeness auto
termination
  by (relation "measure (\<lambda>n. n)") auto

declare str_nat.simps [simp del]

definition str_int :: "int \<Rightarrow> string" where
  "str_int i = (if i < 0 then CHR ''-'' # str_nat (nat (- i)) else str_nat (nat i))"

text \<open>
  \<open>v.to_bytes(n, "big")\<close>: the \<open>n\<close> bytes of \<open>v\<close>, most significant first; OverflowError
  when \<open>v\<close> is negative or does not fit.
\<close>

fun be_bytes :: "nat \<Rightarrow> nat \<Rightarrow> bytes" where
  "be_bytes 0 v = []"
| "be_bytes (Suc n) v = be_bytes n (v div 256) @ [char_of (v mod 256)]"

definition to_bytes :: "int \<Rightarrow> nat \<Rightarrow> error + bytes" where
  "to_bytes v n =
     (if v < 0 then Inl OverflowError
      else if 256 ^ n \<le> v then Inl OverflowError
      else Inr (be_bytes n (nat v)))"

section \<open>The writer\<close>

text \<open>
  \<open>_save(im, fp, filename)\<close>. The image is a record of what the writer reads from it:
  its mode, its size and \<open>im.getextrema()[1]\<close>. The sink \<open>fp\<close> is the bytes written so
  far. \<open>ImageFile._save\<close> (the raw encoder, outside this file) is the parameter
  \<open>raw_save\<close>: the bytes it writes for an image and a raw mode.
\<close>

record image =
  im_mode :: string
  im_size :: "int \<times> int"
  im_extrema_max :: int

definition save_select :: "image \<Rightarrow> error + (string \<times> bytes)" where
  "save_select im =
     (if im_mode im = ''1'' then Inr (''1;I'', ''P4'')
      else if im_mode im = ''L'' then Inr (''L'', ''P5'')
      else if im_mode im = ''I'' then
        (if im_extrema_max im < 2 ^ 16 then Inr (''I;16B'', ''P5'') else Inr (''I;32B'', ''P5''))
      else if im_mode im = ''RGB'' then Inr (''RGB'', ''P6'')
      else if im_mode im = ''RGBA'' then Inr (''RGB'', ''P6'')
      else Inl (CannotWriteMode (im_mode im)))"

definition save :: "(image \<Rightarrow> string \<Rightarrow> bytes) \<Rightarrow> image \<Rightarrow> bytes \<Rightarrow> (error + unit) \<times> bytes" where
  "save raw_save im fp =
     (case save_select im of
        Inl e \<Rightarrow> (Inl e, fp)
      | Inr (rawmode, head) \<Rightarrow>
          (let fp1 = fp @ head @ [CHR 0x0A] @ str_int (fst (im_size im)) @ '' ''
                        @ str_int (snd (im_size im)) @ [CHR 0x0A];
               fp2 = (if head = ''P6'' then fp1 @ ''255'' @ [CHR 0x0A] else fp1);
               fp3 = (if head = ''P5'' then
                        (if rawmode = ''L'' then fp2 @ ''255'' @ [CHR 0x0A]
                         else if rawmode = ''I;16B'' then fp2 @ ''65535'' @ [CHR 0x0A]
                         else if rawmode = ''I;32B'' then fp2 @ ''2147483648'' @ [CHR 0x0A]
                         else fp2)
                      else fp2)
           in (Inr (), fp3 @ raw_save im rawmode)))"

section \<open>The header tokenizer and \<open>_open\<close>\<close>

text \<open>
  The header is read from \<open>fp\<close> one byte at a time; \<open>fp\<close> is modelled by the bytes not
  yet read, so \<open>fp.read(1)\<close> takes the head (and returns \<open>b""\<close> on the empty list).
\<close>

text \<open>\<open>_read_magic\<close>: up to six bytes, stopping at (and consuming) a whitespace byte.\<close>

fun read_magic_loop :: "nat \<Rightarrow> bytes \<Rightarrow> bytes \<Rightarrow> bytes \<times> bytes" where
  "read_magic_loop 0 magic fp = (magic, fp)"
| "read_magic_loop (Suc n) magic fp =
     (case fp of
        [] \<Rightarrow> (magic, [])
      | c # cs \<Rightarrow> if c \<in> set b_whitespace then (magic, cs) else read_magic_loop n (magic @ [c]) cs)"

definition read_magic :: "bytes \<Rightarrow> bytes \<times> bytes" where
  "read_magic fp = read_magic_loop 6 [] fp"

text \<open>\<open>while self.fp.read(1) not in b"\r\n": pass\<close> (stops at CR, LF or end of file).\<close>

fun skip_comment :: "bytes \<Rightarrow> bytes" where
  "skip_comment [] = []"
| "skip_comment (c # cs) = (if c = CHR 0x0D \<or> c = CHR 0x0A then cs else skip_comment cs)"

lemma length_skip_comment: "length (skip_comment fp) \<le> length fp"
  by (induction fp) auto

text \<open>The \<open>while len(token) <= 10\<close> loop of \<open>_read_token\<close>: the token so far and \<open>fp\<close>.\<close>

function read_token_loop :: "bytes \<Rightarrow> bytes \<Rightarrow> bytes \<times> bytes" where
  "read_token_loop token fp =
     (if length token \<le> 10 then
        (case fp of
           [] \<Rightarrow> (token, [])
         | c # cs \<Rightarrow>
             if c \<in> set b_whitespace then
               (if token = [] then read_token_loop token cs else (token, cs))
             else if c = CHR ''#'' then read_token_loop token (skip_comment cs)
             else read_token_loop (token @ [c]) cs)
      else (token, fp))"
  by pat_completeness auto
termination
  by (relation "measure (\<lambda>(token, fp). length fp)")
     (auto simp: length_skip_comment less_Suc_eq_le)

declare read_token_loop.simps [simp del]

definition read_token :: "bytes \<Rightarrow> error + (bytes \<times> bytes)" where
  "read_token fp =
     (case read_token_loop [] fp of
        (token, fp') \<Rightarrow>
          if token = [] then Inl ReachedEOFHeader
          else if 10 < length token then Inl (HeaderTokenTooLong token)
          else Inr (token, fp'))"

text \<open>\<open>int(self._read_token())\<close>.\<close>

definition read_int_token :: "bytes \<Rightarrow> error + (int \<times> bytes)" where
  "read_int_token fp =
     (case read_token fp of
        Inl e \<Rightarrow> Inl e
      | Inr (token, fp') \<Rightarrow> (case py_int token of Inl e \<Rightarrow> Inl e | Inr v \<Rightarrow> Inr (v, fp')))"

text \<open>
  What \<open>_open\<close> leaves behind: the attributes it sets on the image file, the one tile
  (decoder name, raw mode, and the offset \<open>fp.tell()\<close>, kept as the bytes that follow
  it), and the local \<open>maxval\<close> (never bound for a bitonal file).
\<close>

record ppm_file =
  f_mode :: string
  f_rawmode :: string
  f_size :: "int \<times> int"
  f_maxval :: "int option"
  f_mimetype :: "string option"
  f_decoder :: string
  f_offset :: nat
  f_rest :: bytes

definition mimetype_of :: "bytes \<Rightarrow> string option" where
  "mimetype_of magic_number =
     (if magic_number = ''P1'' \<or> magic_number = ''P4'' then Some ''image/x-portable-bitmap''
      else if magic_number = ''P2'' \<or> magic_number = ''P5'' then Some ''image/x-portable-graymap''
      else if magic_number = ''P3'' \<or> magic_number = ''P6'' then Some ''image/x-portable-pixmap''
      else None)"

definition decoder_of :: "bytes \<Rightarrow> string" where
  "decoder_of magic_number =
     (if magic_number = ''P1'' \<or> magic_number = ''P2'' \<or> magic_number = ''P3''
      then ''ppm_plain'' else ''raw'')"

definition mk_file ::
  "bytes \<Rightarrow> bytes \<Rightarrow> string \<Rightarrow> string \<Rightarrow> int \<Rightarrow> int \<Rightarrow> int option \<Rightarrow> bytes \<Rightarrow> ppm_file" where
  "mk_file data magic_number mode rawmode xsize ysize maxval fp =
     \<lparr> f_mode = mode, f_rawmode = rawmode, f_size = (xsize, ysize), f_maxval = maxval,
       f_mimetype = mimetype_of magic_number, f_decoder = decoder_of magic_number,
       f_offset = length data - length fp, f_rest = fp \<rparr>"

definition open_ppm :: "bytes \<Rightarrow> error + ppm_file" where
  "open_ppm data =
     (case read_magic data of
        (magic_number, fp0) \<Rightarrow>
          (case MODES magic_number of
             None \<Rightarrow> Inl NotAPPMFile
           | Some mode \<Rightarrow>
               (case read_int_token fp0 of
                  Inl e \<Rightarrow> Inl e
                | Inr (xsize, fp1) \<Rightarrow>
                    (case read_int_token fp1 of
                       Inl e \<Rightarrow> Inl e
                     | Inr (ysize, fp2) \<Rightarrow>
                         if mode = ''1'' then
                           Inr (mk_file data magic_number ''1'' ''1;I'' xsize ysize None fp2)
                         else
                           (case read_int_token fp2 of
                              Inl e \<Rightarrow> Inl e
                            | Inr (maxval, fp3) \<Rightarrow>
                                if 255 < maxval then
                                  (if mode \<noteq> ''L'' then Inl (TooManyColors maxval)
                                   else if maxval < 2 ^ 16 then
                                     Inr (mk_file data magic_number ''I'' ''I;16B'' xsize ysize
                                            (Some maxval) fp3)
                                   else
                                     Inr (mk_file data magic_number ''I'' ''I;32B'' xsize ysize
                                            (Some maxval) fp3))
                                else
                                  Inr (mk_file data magic_number mode mode xsize ysize
                                         (Some maxval) fp3))))))"

section \<open>The plain-text decoder\<close>

text \<open>
  The decoder pulls its input with \<open>self.fd.read(ImageFile.SAFEBLOCK)\<close>. The source
  \<open>fd\<close> is modelled by the blocks its successive reads return; once they are used up
  every read returns \<open>b""\<close>.
\<close>

definition read_block :: "bytes list \<Rightarrow> bytes \<times> bytes list" where
  "read_block fd = (case fd of [] \<Rightarrow> ([], []) | b # bs \<Rightarrow> (b, bs))"

text \<open>\<open>block.find(sub, start)\<close> for a one-byte \<open>sub\<close>: the lowest index from \<open>start\<close>, or -1.\<close>

fun find_idx :: "char \<Rightarrow> bytes \<Rightarrow> nat \<Rightarrow> int" where
  "find_idx c [] i = - 1"
| "find_idx c (x # xs) i = (if x = c then int i else find_idx c xs (Suc i))"

definition find :: "bytes \<Rightarrow> char \<Rightarrow> nat \<Rightarrow> int" where
  "find block c start = find_idx c (drop start block) start"

definition find_comment_end :: "bytes \<Rightarrow> nat \<Rightarrow> int" where
  "find_comment_end block start =
     (let a = find block (CHR 0x0A) start;
          b = find block (CHR 0x0D) start
      in if 0 < a * b then min a b else max a b)"

lemma find_idx_range: "find_idx c xs i \<noteq> - 1 \<Longrightarrow> int i \<le> find_idx c xs i \<and> find_idx c xs i < int (i + length xs)"
  by (induction xs arbitrary: i) (auto split: if_splits, force+)

lemma find_range: "find block c start \<noteq> - 1 \<Longrightarrow> int start \<le> find block c start \<and> find block c start < int (length block)"
  using find_idx_range [of c "drop start block" start]
  by (cases "start \<le> length block") (auto simp: find_def)

lemma find_comment_end_range:
  "find_comment_end block start \<noteq> - 1 \<Longrightarrow>
     int start \<le> find_comment_end block start \<and> find_comment_end block start < int (length block)"
  using find_range [of block "CHR 0x0A" start] find_range [of block "CHR 0x0D" start]
  by (auto simp: find_comment_end_def Let_def min_def max_def split: if_splits)

text \<open>
  \<open>_ignore_comments\<close>: delete every comment of the block; a comment that does not end
  in the block is cut off and flagged. The slice bounds are indices returned by
  \<open>find\<close>, hence non-negative.
\<close>

function ignore_comments :: "bytes \<Rightarrow> bytes \<times> bool" where
  "ignore_comments block =
     (let comment_start = find block (CHR ''#'') 0 in
      if comment_start = - 1 then (block, False)
      else
        (let comment_end = find_comment_end block (nat comment_start) in
         if comment_end \<noteq> - 1 then
           ignore_comments (take (nat comment_start) block @ drop (nat (comment_end + 1)) block)
         else (take (nat comment_start) block, True)))"
  by pat_completeness auto
termination
proof (relation "measure length", goal_cases)
  case 1
  show ?case by simp
next
  case (2 block cs ce)
  from 2 find_range [of block "CHR ''#''" 0]
  have a: "0 \<le> cs" "cs < int (length block)" by auto
  from 2 find_comment_end_range [of block "nat cs"] a
  have b: "cs \<le> ce" "ce < int (length block)" by auto
  from a b show ?case by (auto simp: min_def nat_add_distrib)
qed

declare ignore_comments.simps [simp del]

text \<open>
  The \<open>while block and comment_spans\<close> loop shared by both decoders: drop the tail of
  a comment left open by the previous block, reading further blocks while the comment
  goes on. (One decoder leaves the loop by \<open>break\<close>, the other by clearing the flag;
  either way the flag is overwritten by \<open>_ignore_comments\<close> right after.)
\<close>

function skip_spanning :: "bool \<Rightarrow> bytes \<Rightarrow> bytes list \<Rightarrow> bytes \<times> bytes list" where
  "skip_spanning comment_spans block fd =
     (if block \<noteq> [] \<and> comment_spans then
        (let comment_end = find_comment_end block 0 in
         if comment_end \<noteq> - 1 then (drop (nat (comment_end + 1)) block, fd)
         else skip_spanning comment_spans (fst (read_block fd)) (snd (read_block fd)))
      else (block, fd))"
  by pat_completeness auto
termination
  by (relation "measures [\<lambda>(c, b, fd). length fd, \<lambda>(c, b, fd). length b]")
     (auto simp: read_block_def split: list.splits)

declare skip_spanning.simps [simp del]

lemma length_skip_spanning: "length (snd (skip_spanning c block fd)) \<le> length fd"
proof (induction c block fd rule: skip_spanning.induct)
  case (1 c block fd)
  have rb: "length (snd (read_block fd)) \<le> length fd"
    by (simp add: read_block_def split: list.splits)
  show ?case
  proof (cases "block \<noteq> [] \<and> c")
    case False
    then show ?thesis by (subst skip_spanning.simps) auto
  next
    case True
    note bc = this
    show ?thesis
    proof (cases "find_comment_end block 0 = - 1")
      case True
      with bc have ih: "length (snd (skip_spanning c (fst (read_block fd)) (snd (read_block fd))))
                   \<le> length (snd (read_block fd))"
        using "1.IH" [OF _ refl] by blast
      have eq: "skip_spanning c block fd
                  = skip_spanning c (fst (read_block fd)) (snd (read_block fd))"
        using True bc by (subst skip_spanning.simps) (simp add: Let_def)
      show ?thesis unfolding eq using ih rb by linarith
    next
      case False
      with bc show ?thesis by (subst skip_spanning.simps) (simp add: Let_def)
    qed
  qed
qed

text \<open>\<open>block.split()\<close>: the maximal runs of non-whitespace bytes.\<close>

definition isspace :: "char \<Rightarrow> bool" where
  "isspace c = (c \<in> set b_whitespace)"

fun split_aux :: "bytes \<Rightarrow> bytes \<Rightarrow> bytes list" where
  "split_aux cur [] = (if cur = [] then [] else [cur])"
| "split_aux cur (c # cs) =
     (if isspace c then (if cur = [] then split_aux [] cs else cur # split_aux [] cs)
      else split_aux (cur @ [c]) cs)"

definition split :: "bytes \<Rightarrow> bytes list" where
  "split block = split_aux [] block"

text \<open>
  The validation loop of \<open>_decode_bitonal\<close>: the first byte that is neither \<open>48\<close> nor
  \<open>49\<close>, if any.
\<close>

fun check_bitonal :: "bytes \<Rightarrow> char option" where
  "check_bitonal [] = None"
| "check_bitonal (token # tokens) =
     (if token \<noteq> CHR ''0'' \<and> token \<noteq> CHR ''1'' then Some token else check_bitonal tokens)"

text \<open>\<open>decoded_data.translate(bytes.maketrans(b"01", b"\xFF\x00"))\<close>.\<close>

definition invert :: "char \<Rightarrow> char" where
  "invert c = (if c = CHR ''0'' then CHR 0xFF else if c = CHR ''1'' then CHR 0x00 else c)"

text \<open>
  The \<open>while len(decoded_data) != total_bytes\<close> loop of \<open>_decode_bitonal\<close>, before the
  final translation.
\<close>

lemma length_skip_spanning_eq:
  "skip_spanning c block fd = (block', fd') \<Longrightarrow> length fd' \<le> length fd"
  using length_skip_spanning [of c block fd] by simp

lemma length_read_block:
  "read_block fd = (block, fd') \<Longrightarrow> block \<noteq> [] \<Longrightarrow> length fd' < length fd"
  by (auto simp: read_block_def split: list.splits)

function decode_bitonal_loop :: "nat \<Rightarrow> bytes \<Rightarrow> bool \<Rightarrow> bytes list \<Rightarrow> error + bytes" where
  "decode_bitonal_loop total_bytes decoded_data comment_spans fd =
     (if length decoded_data = total_bytes then Inr decoded_data
      else
        (case read_block fd of
           (block, fd1) \<Rightarrow>
             if block = [] then Inr decoded_data
             else
               (case skip_spanning comment_spans block fd1 of
                  (block2, fd2) \<Rightarrow>
                    (case ignore_comments block2 of
                       (block3, comment_spans') \<Rightarrow>
                         (let tokens = concat (split block3) in
                          case check_bitonal tokens of
                            Some token \<Rightarrow> Inl (InvalidToken [token])
                          | None \<Rightarrow>
                              decode_bitonal_loop total_bytes
                                (take total_bytes (decoded_data @ tokens)) comment_spans' fd2)))))"
  by pat_completeness auto
termination
proof (relation "measure (\<lambda>(t, d, c, fd). length fd)", goal_cases)
  case 1
  show ?case by simp
next
  case 2
  then show ?case
    by (auto dest!: sym [THEN length_skip_spanning_eq] sym [THEN length_read_block])
qed

declare decode_bitonal_loop.simps [simp del]

definition decode_bitonal :: "nat \<Rightarrow> nat \<Rightarrow> bytes list \<Rightarrow> error + bytes" where
  "decode_bitonal xsize ysize fd =
     (case decode_bitonal_loop (xsize * ysize) [] False fd of
        Inl e \<Rightarrow> Inl e
      | Inr decoded_data \<Rightarrow> Inr (map invert decoded_data))"

text \<open>
  The \<open>for token in tokens\<close> loop of \<open>_decode_blocks\<close>; it returns the output buffer as
  it stands when the loop ends (by exhaustion or by \<open>break\<close>).
\<close>

fun decode_tokens :: "int \<Rightarrow> nat \<Rightarrow> nat \<Rightarrow> bytes \<Rightarrow> bytes list \<Rightarrow> error + bytes" where
  "decode_tokens maxval bytes_per_sample total_bytes decoded_data [] = Inr decoded_data"
| "decode_tokens maxval bytes_per_sample total_bytes decoded_data (token # tokens) =
     (if 10 < length token then Inl (DataTokenTooLong (take 11 token))
      else
        (case py_int token of
           Inl e \<Rightarrow> Inl e
         | Inr v \<Rightarrow>
             if maxval < v then Inl (ChannelValueTooLarge v)
             else
               (case to_bytes v bytes_per_sample of
                  Inl e \<Rightarrow> Inl e
                | Inr sample \<Rightarrow>
                    if length (decoded_data @ sample) = total_bytes then Inr (decoded_data @ sample)
                    else decode_tokens maxval bytes_per_sample total_bytes
                           (decoded_data @ sample) tokens)))"

text \<open>
  \<open>half_token = tokens.pop()\<close> with its length check. \<open>half_token\<close> starts as
  \<open>False\<close> and is only ever tested for truth and prepended when true, so the empty
  list stands for \<open>False\<close>.
\<close>

definition pop_half_token :: "bytes list \<Rightarrow> error + (bytes list \<times> bytes)" where
  "pop_half_token tokens =
     (if tokens = [] then Inl IndexError
      else if 10 < length (last tokens) then Inl (DataTokenTooLong (take 11 (last tokens)))
      else Inr (butlast tokens, last tokens))"

text \<open>The \<open>while len(decoded_data) != total_bytes\<close> loop of \<open>_decode_blocks\<close>.\<close>

partial_function (option) decode_blocks_loop ::
  "int \<Rightarrow> nat \<Rightarrow> nat \<Rightarrow> bytes \<Rightarrow> bool \<Rightarrow> bytes \<Rightarrow> bytes list \<Rightarrow> (error + bytes) option" where
  [code]: "decode_blocks_loop maxval bytes_per_sample total_bytes decoded_data comment_spans half_token fd =
     (if length decoded_data = total_bytes then Some (Inr decoded_data)
      else
        (case read_block fd of
           (block0, fd1) \<Rightarrow>
             if block0 = [] \<and> half_token = [] then Some (Inr decoded_data)
             else
               (case skip_spanning comment_spans (if block0 = [] then '' '' else block0) fd1 of
                  (block2, fd2) \<Rightarrow>
                    (case ignore_comments block2 of
                       (block3, comment_spans') \<Rightarrow>
                         (let block = (if half_token \<noteq> [] then half_token @ block3 else block3);
                              tokens = split block
                          in case (if block \<noteq> [] \<and> \<not> isspace (last block)
                                   then pop_half_token tokens
                                   else Inr (tokens, half_token)) of
                               Inl e \<Rightarrow> Some (Inl e)
                             | Inr (tokens', half_token') \<Rightarrow>
                                 (case decode_tokens maxval bytes_per_sample total_bytes
                                         decoded_data tokens' of
                                    Inl e \<Rightarrow> Some (Inl e)
                                  | Inr decoded_data' \<Rightarrow>
                                      decode_blocks_loop maxval bytes_per_sample total_bytes
                                        decoded_data' comment_spans' half_token' fd2))))))"

definition decode_blocks :: "nat \<Rightarrow> nat \<Rightarrow> nat \<Rightarrow> nat \<Rightarrow> bytes list \<Rightarrow> (error + bytes) option" where
  "decode_blocks xsize ysize channels depth fd =
     (let maxval = 2 ^ (if depth = 32 then 31 else depth) - 1;
          bytes_per_sample = depth div 8;
          total_bytes = xsize * ysize * channels * bytes_per_sample
      in decode_blocks_loop maxval bytes_per_sample total_bytes [] False [] fd)"

text \<open>
  \<open>decode\<close>: the dispatch on the mode, returning the bytes and the raw mode handed to
  \<open>set_as_raw\<close>. A mode outside the four branches leaves \<open>decoded_data\<close> unbound.
\<close>

definition with_rawmode :: "string \<Rightarrow> (error + bytes) option \<Rightarrow> (error + bytes \<times> string) option" where
  "with_rawmode rawmode r =
     (case r of
        None \<Rightarrow> None
      | Some (Inl e) \<Rightarrow> Some (Inl e)
      | Some (Inr decoded_data) \<Rightarrow> Some (Inr (decoded_data, rawmode)))"

definition decode :: "string \<Rightarrow> string \<Rightarrow> nat \<Rightarrow> nat \<Rightarrow> bytes list \<Rightarrow> (error + bytes \<times> string) option" where
  "decode mode rawmode xsize ysize fd =
     (if mode = ''1'' then with_rawmode ''1;8'' (Some (decode_bitonal xsize ysize fd))
      else if mode = ''L'' then with_rawmode rawmode (decode_blocks xsize ysize 1 8 fd)
      else if mode = ''I'' then
        (if rawmode = ''I;16B'' then with_rawmode rawmode (decode_blocks xsize ysize 1 16 fd)
         else if rawmode = ''I;32B'' then with_rawmode rawmode (decode_blocks xsize ysize 1 32 fd)
         else Some (Inl UnboundLocalError))
      else if mode = ''RGB'' then with_rawmode rawmode (decode_blocks xsize ysize 3 8 fd)
      else Some (Inl UnboundLocalError))"


section \<open>Format recognition\<close>

text \<open>
  C10. The recognition entry point is not total on short prefixes: on the one-byte
  prefix \<open>b"P"\<close> it raises IndexError; on every prefix of length at least two, and on
  every prefix that does not start with \<open>b"P"\<close>, it returns a boolean.
\<close>

theorem accept_partial:
  "accept ''P'' = Inl IndexError \<and>
   (\<forall>prefix. 2 \<le> length prefix \<or> take 1 prefix \<noteq> ''P'' \<longrightarrow> (\<exists>b. accept prefix = Inr b))"
  by (auto simp: accept_def)

theorem accept_partial_witness:
  "(\<exists>b. accept ''P6'' = Inr b) \<and> (\<exists>b. accept ''GIF8'' = Inr b) \<and> (\<exists>b. accept [] = Inr b)"
  using accept_partial by simp

section \<open>Header resolution\<close>

lemma open_ppm_three_tokens:
  assumes "read_magic data = (magic_number, fp0)" "MODES magic_number = Some mode"
    "read_int_token fp0 = Inr (xsize, fp1)" "read_int_token fp1 = Inr (ysize, fp2)"
    "mode \<noteq> ''1''" "read_int_token fp2 = Inr (maxval, fp3)"
  shows "open_ppm data =
           (if 255 < maxval then
              (if mode \<noteq> ''L'' then Inl (TooManyColors maxval)
               else if maxval < 2 ^ 16 then
                 Inr (mk_file data magic_number ''I'' ''I;16B'' xsize ysize (Some maxval) fp3)
               else Inr (mk_file data magic_number ''I'' ''I;32B'' xsize ysize (Some maxval) fp3))
            else Inr (mk_file data magic_number mode mode xsize ysize (Some maxval) fp3))"
  unfolding open_ppm_def using assms by simp

lemma open_ppm_ok_reads:
  assumes "open_ppm data = Inr f" "read_magic data = (magic_number, fp0)"
    "MODES magic_number = Some mode" "mode \<noteq> ''1''"
  shows "\<exists>xsize fp1 ysize fp2 maxval fp3.
           read_int_token fp0 = Inr (xsize, fp1) \<and> read_int_token fp1 = Inr (ysize, fp2) \<and>
           read_int_token fp2 = Inr (maxval, fp3)"
proof -
  from assms obtain xsize fp1 where x: "read_int_token fp0 = Inr (xsize, fp1)"
    by (cases "read_int_token fp0") (auto simp: open_ppm_def)
  from assms x obtain ysize fp2 where y: "read_int_token fp1 = Inr (ysize, fp2)"
    by (cases "read_int_token fp1") (auto simp: open_ppm_def)
  from assms x y obtain maxval fp3 where v: "read_int_token fp2 = Inr (maxval, fp3)"
    by (cases "read_int_token fp2") (auto simp: open_ppm_def)
  from x y v show ?thesis by blast
qed

lemma gray_modes:
  assumes ok: "open_ppm data = Inr f" and "open_ppm data =
            (if 255 < mv then
               (if mv < 2 ^ 16 then
                  Inr (mk_file data magic_number ''I'' ''I;16B'' xs ys (Some mv) fp3)
                else Inr (mk_file data magic_number ''I'' ''I;32B'' xs ys (Some mv) fp3))
             else Inr (mk_file data magic_number ''L'' ''L'' xs ys (Some mv) fp3))"
  shows "\<exists>m. f_maxval f = Some m \<and>
           (f_mode f, f_rawmode f) =
             (if m \<le> 255 then (''L'', ''L'')
              else if m < 65536 then (''I'', ''I;16B'')
              else (''I'', ''I;32B''))"
proof -
  from assms have f: "f = (if 255 < mv then
               (if mv < 2 ^ 16 then
                  (mk_file data magic_number ''I'' ''I;16B'' xs ys (Some mv) fp3)
                else (mk_file data magic_number ''I'' ''I;32B'' xs ys (Some mv) fp3))
             else (mk_file data magic_number ''L'' ''L'' xs ys (Some mv) fp3))"
    by (simp split: if_splits)
  have "f_maxval f = Some mv" unfolding f by (simp add: mk_file_def)
  moreover have "f_mode f = (if mv \<le> 255 then ''L'' else ''I'')"
    unfolding f by (simp add: mk_file_def)
  moreover have "f_rawmode f = (if mv \<le> 255 then ''L'' else if mv < 65536 then ''I;16B'' else ''I;32B'')"
    unfolding f by (simp add: mk_file_def)
  ultimately show ?thesis by simp
qed

lemma gray_resolution:
  assumes ok: "open_ppm data = Inr f" and gray: "MODES (fst (read_magic data)) = Some ''L''"
  shows "\<exists>m. f_maxval f = Some m \<and>
           (f_mode f, f_rawmode f) =
             (if m \<le> 255 then (''L'', ''L'')
              else if m < 65536 then (''I'', ''I;16B'')
              else (''I'', ''I;32B''))"
proof -
  obtain magic_number fp0 where m: "read_magic data = (magic_number, fp0)"
    by (cases "read_magic data")
  with gray have md: "MODES magic_number = Some ''L''" by simp
  have n1: "''L'' \<noteq> ''1''" by simp
  from open_ppm_ok_reads [OF ok m md n1]
  obtain xs fp1 ys fp2 mv fp3 where
    r: "read_int_token fp0 = Inr (xs, fp1)" "read_int_token fp1 = Inr (ys, fp2)"
       "read_int_token fp2 = Inr (mv, fp3)"
    by blast
  have "open_ppm data =
          (if 255 < mv then
             (if mv < 2 ^ 16 then
                Inr (mk_file data magic_number ''I'' ''I;16B'' xs ys (Some mv) fp3)
              else Inr (mk_file data magic_number ''I'' ''I;32B'' xs ys (Some mv) fp3))
           else Inr (mk_file data magic_number ''L'' ''L'' xs ys (Some mv) fp3))"
    using open_ppm_three_tokens [OF m md r(1) r(2) n1 r(3)] by simp
  from gray_modes [OF ok this] show ?thesis .
qed

text \<open>
  C5. For a grayscale header the raw mode depends on the maximum value alone: at most
  255 gives mode \<open>L\<close>, above 255 and below 65536 gives \<open>I;16B\<close>, from 65536 on gives
  \<open>I;32B\<close>; the plain decoder packs these with depth 8, 16 and 32, that is 1, 2 and 4
  bytes per sample.
\<close>

theorem grayscale_sample_width:
  "(open_ppm data = Inr f \<and> MODES (fst (read_magic data)) = Some ''L'' \<longrightarrow>
      (\<exists>m. f_maxval f = Some m \<and>
           (f_mode f, f_rawmode f) =
             (if m \<le> 255 then (''L'', ''L'')
              else if m < 65536 then (''I'', ''I;16B'')
              else (''I'', ''I;32B'')))) \<and>
   decode ''L'' ''L'' xsize ysize fd = with_rawmode ''L'' (decode_blocks xsize ysize 1 8 fd) \<and>
   decode ''I'' ''I;16B'' xsize ysize fd = with_rawmode ''I;16B'' (decode_blocks xsize ysize 1 16 fd) \<and>
   decode ''I'' ''I;32B'' xsize ysize fd = with_rawmode ''I;32B'' (decode_blocks xsize ysize 1 32 fd)"
proof -
  have "decode ''L'' ''L'' xsize ysize fd = with_rawmode ''L'' (decode_blocks xsize ysize 1 8 fd)"
    by (simp add: decode_def)
  moreover have "decode ''I'' ''I;16B'' xsize ysize fd
                   = with_rawmode ''I;16B'' (decode_blocks xsize ysize 1 16 fd)"
    by (simp add: decode_def)
  moreover have "decode ''I'' ''I;32B'' xsize ysize fd
                   = with_rawmode ''I;32B'' (decode_blocks xsize ysize 1 32 fd)"
    by (simp add: decode_def)
  ultimately show ?thesis using gray_resolution [of data f] by blast
qed

theorem too_many_colors:
  assumes "read_magic data = (magic_number, fp0)" "MODES magic_number = Some mode"
    "read_int_token fp0 = Inr (xsize, fp1)" "read_int_token fp1 = Inr (ysize, fp2)"
    "mode \<noteq> ''1''" "read_int_token fp2 = Inr (maxval, fp3)" "255 < maxval"
  shows "(mode \<noteq> ''L'' \<longrightarrow> open_ppm data = Inl (TooManyColors maxval)) \<and>
         (mode = ''L'' \<longrightarrow> (\<exists>f. open_ppm data = Inr f \<and> f_maxval f = Some maxval))"
proof -
  have "mode \<noteq> ''L'' \<Longrightarrow> open_ppm data = Inl (TooManyColors maxval)"
    using open_ppm_three_tokens [OF assms(1-6)] assms(7) by simp
  moreover have "\<exists>f. open_ppm data = Inr f \<and> f_maxval f = Some maxval" if "mode = ''L''"
  proof (cases "maxval < 2 ^ 16")
    case True
    then have "open_ppm data = Inr (mk_file data magic_number ''I'' ''I;16B'' xsize ysize (Some maxval) fp3)"
      using open_ppm_three_tokens [OF assms(1-6)] assms(7) that by simp
    then show ?thesis by (simp add: mk_file_def)
  next
    case False
    then have "open_ppm data = Inr (mk_file data magic_number ''I'' ''I;32B'' xsize ysize (Some maxval) fp3)"
      using open_ppm_three_tokens [OF assms(1-6)] assms(7) that by simp
    then show ?thesis by (simp add: mk_file_def)
  qed
  ultimately show ?thesis by blast
qed

end
